theory Spec2Isabelle
  imports Main "HOL-Library.Word" "HOL-Library.Sublist" "HOL-Library.AList"
begin

section \<open>The ERC-721 token chaincode (token-erc-721/chaincode-go)\<close>

text \<open>
  A shallow embedding of \<^verbatim>\<open>token_erc_721.go\<close>. Every contract function becomes a HOL
  function from the transaction context (caller identity and world state) to its result
  and the context after the call. Go's \<^verbatim>\<open>int\<close> is a 64-bit word, strings are byte lists,
  an \<^verbatim>\<open>error\<close> result is \<open>error option\<close> (\<open>None\<close> for \<^verbatim>\<open>nil\<close>).
\<close>

subsection \<open>strconv.Atoi\<close>

type_synonym int64 = "64 word"

definition digitVal :: "char \<Rightarrow> nat option" where
  "digitVal c = map_of (zip ''0123456789'' [0, 1, 2, 3, 4, 5, 6, 7, 8, 9]) c"

fun parseDigits :: "string \<Rightarrow> nat \<Rightarrow> nat option" where
  "parseDigits [] n = Some n"
| "parseDigits (c # cs) n =
     (case digitVal c of None \<Rightarrow> None | Some d \<Rightarrow> parseDigits cs (n * 10 + d))"

text \<open>
  \<^verbatim>\<open>strconv.Atoi\<close>: an optional sign, then one or more decimal digits; the value has to
  fit a 64-bit signed integer. \<open>None\<close> stands for the returned error.
\<close>

definition Atoi :: "string \<Rightarrow> int64 option" where
  "Atoi s =
     (case s of
        [] \<Rightarrow> None
      | c # cs \<Rightarrow>
          let neg = (c = CHR ''-'');
              ds = (if c = CHR ''-'' \<or> c = CHR ''+'' then cs else s)
          in if ds = [] then None
             else (case parseDigits ds 0 of
                     None \<Rightarrow> None
                   | Some n \<Rightarrow>
                       if neg then (if n \<le> 2 ^ 63 then Some (word_of_int (- int n)) else None)
                       else (if n < 2 ^ 63 then Some (word_of_int (int n)) else None)))"

subsection \<open>encoding/json on the structs of the contract\<close>

text \<open>
  Stored values and event payloads are byte strings. A byte string that is the text of a
  JSON document is represented by the document (\<open>JSON\<close>); any other byte string, such as
  the empty one or the NUL sentinel of the balance index, by \<open>NonJSON\<close>. Strings are taken
  to be valid UTF-8, on which encoding and decoding a document are inverse.
\<close>

datatype json =
    JNull
  | JBool bool
  | JInt int
  | JReal string
  | JStr string
  | JArr "json list"
  | JObj "(string \<times> json) list"

datatype bytes = JSON json | NonJSON string

datatype goval = GoInt int64 | GoString string | GoBool bool

text \<open>
  A struct type is described by its fields in declaration order: the Go name, the name
  given by the \<^verbatim>\<open>json:"..."\<close> tag (empty when there is no tag), and the accessors.
\<close>

record 'a field =
  goName :: string
  jsonTag :: string
  getField :: "'a \<Rightarrow> goval"
  setField :: "goval \<Rightarrow> 'a \<Rightarrow> 'a"

definition upperChars :: string where
  "upperChars = ''ABCDEFGHIJKLMNOPQRSTUVWXYZ''"

definition lowerChars :: string where
  "lowerChars = ''abcdefghijklmnopqrstuvwxyz''"

definition toLower :: "char \<Rightarrow> char" where
  "toLower c = (case map_of (zip upperChars lowerChars) c of Some l \<Rightarrow> l | None \<Rightarrow> c)"

text \<open>
  encoding/json reads and writes exported fields only: those whose Go name starts with an
  upper-case letter.
\<close>

definition exported :: "'a field \<Rightarrow> bool" where
  "exported f = (case goName f of [] \<Rightarrow> False | c # _ \<Rightarrow> c \<in> set upperChars)"

definition jsonName :: "'a field \<Rightarrow> string" where
  "jsonName f = (if jsonTag f = [] then goName f else jsonTag f)"

definition json_of :: "goval \<Rightarrow> json" where
  "json_of v = (case v of GoInt n \<Rightarrow> JInt (sint n) | GoString s \<Rightarrow> JStr s | GoBool b \<Rightarrow> JBool b)"

text \<open>\<^verbatim>\<open>json.Marshal\<close> of a struct: an object of its exported fields, in declaration order.\<close>

definition Marshal :: "'a field list \<Rightarrow> 'a \<Rightarrow> bytes" where
  "Marshal fs x = JSON (JObj (map (\<lambda>f. (jsonName f, json_of (getField f x))) (filter exported fs)))"

datatype json_error = SyntaxError | UnmarshalTypeError

text \<open>
  Decoding one JSON value into a field that currently holds \<open>cur\<close>: \<^verbatim>\<open>null\<close> leaves the
  field as it is, a value of the field's type is stored, anything else is a type error.
\<close>

fun assign :: "goval \<Rightarrow> json \<Rightarrow> goval option" where
  "assign cur JNull = Some cur"
| "assign (GoInt _) (JInt n) =
     (if - (2 ^ 63) \<le> n \<and> n < 2 ^ 63 then Some (GoInt (word_of_int n)) else None)"
| "assign (GoString _) (JStr s) = Some (GoString s)"
| "assign (GoBool _) (JBool b) = Some (GoBool b)"
| "assign _ _ = None"

text \<open>
  The field an object key denotes: an exported field of exactly that JSON name, else one
  whose name matches when letter case is ignored; a key that matches none is skipped.
\<close>

definition findField :: "'a field list \<Rightarrow> string \<Rightarrow> 'a field option" where
  "findField fs k =
     (case find (\<lambda>f. jsonName f = k) (filter exported fs) of
        Some f \<Rightarrow> Some f
      | None \<Rightarrow> find (\<lambda>f. map toLower (jsonName f) = map toLower k) (filter exported fs))"

fun decodeObject :: "'a field list \<Rightarrow> (string \<times> json) list \<Rightarrow> json_error option \<times> 'a
    \<Rightarrow> json_error option \<times> 'a" where
  "decodeObject fs [] r = r"
| "decodeObject fs ((k, v) # kvs) (e, x) =
     (case findField fs k of
        None \<Rightarrow> decodeObject fs kvs (e, x)
      | Some f \<Rightarrow>
          (case assign (getField f x) v of
             None \<Rightarrow> decodeObject fs kvs (if e = None then Some UnmarshalTypeError else e, x)
           | Some g \<Rightarrow> decodeObject fs kvs (e, setField f g x)))"

text \<open>
  \<^verbatim>\<open>json.Unmarshal(data, &x)\<close>: the first error met (\<open>None\<close> for \<^verbatim>\<open>nil\<close>) and the struct
  as it is afterwards. Bytes that are no JSON text are a syntax error and leave \<open>x\<close>
  untouched; \<^verbatim>\<open>null\<close> is accepted and changes nothing; a document that is no object does
  not fit a struct.
\<close>

definition Unmarshal :: "'a field list \<Rightarrow> bytes \<Rightarrow> 'a \<Rightarrow> json_error option \<times> 'a" where
  "Unmarshal fs b x =
     (case b of
        NonJSON _ \<Rightarrow> (Some SyntaxError, x)
      | JSON JNull \<Rightarrow> (None, x)
      | JSON (JObj kvs) \<Rightarrow> decodeObject fs kvs (None, x)
      | JSON _ \<Rightarrow> (Some UnmarshalTypeError, x))"

subsection \<open>The structs of the contract\<close>

record eventtoken =
  et_from :: string
  et_to :: string
  et_TokenID :: int64

definition eventtoken_fields :: "eventtoken field list" where
  "eventtoken_fields =
     [\<lparr>goName = ''from'', jsonTag = [], getField = (\<lambda>e. GoString (et_from e)),
        setField = (\<lambda>v e. case v of GoString s \<Rightarrow> e\<lparr>et_from := s\<rparr> | _ \<Rightarrow> e)\<rparr>,
      \<lparr>goName = ''to'', jsonTag = [], getField = (\<lambda>e. GoString (et_to e)),
        setField = (\<lambda>v e. case v of GoString s \<Rightarrow> e\<lparr>et_to := s\<rparr> | _ \<Rightarrow> e)\<rparr>,
      \<lparr>goName = ''TokenID'', jsonTag = [], getField = (\<lambda>e. GoInt (et_TokenID e)),
        setField = (\<lambda>v e. case v of GoInt n \<Rightarrow> e\<lparr>et_TokenID := n\<rparr> | _ \<Rightarrow> e)\<rparr>]"

record eventApprovedForAll =
  owner :: string
  operator :: string
  approved :: bool

definition eventApprovedForAll_fields :: "eventApprovedForAll field list" where
  "eventApprovedForAll_fields =
     [\<lparr>goName = ''owner'', jsonTag = [], getField = (\<lambda>e. GoString (owner e)),
        setField = (\<lambda>v e. case v of GoString s \<Rightarrow> e\<lparr>owner := s\<rparr> | _ \<Rightarrow> e)\<rparr>,
      \<lparr>goName = ''operator'', jsonTag = [], getField = (\<lambda>e. GoString (operator e)),
        setField = (\<lambda>v e. case v of GoString s \<Rightarrow> e\<lparr>operator := s\<rparr> | _ \<Rightarrow> e)\<rparr>,
      \<lparr>goName = ''approved'', jsonTag = [], getField = (\<lambda>e. GoBool (approved e)),
        setField = (\<lambda>v e. case v of GoBool b \<Rightarrow> e\<lparr>approved := b\<rparr> | _ \<Rightarrow> e)\<rparr>]"

definition zero_eventApprovedForAll :: eventApprovedForAll where
  "zero_eventApprovedForAll = \<lparr>owner = [], operator = [], approved = False\<rparr>"

record eventApproved =
  ea_owner :: string
  ea_approved :: string
  ea_TokenID :: int64

definition eventApproved_fields :: "eventApproved field list" where
  "eventApproved_fields =
     [\<lparr>goName = ''owner'', jsonTag = [], getField = (\<lambda>e. GoString (ea_owner e)),
        setField = (\<lambda>v e. case v of GoString s \<Rightarrow> e\<lparr>ea_owner := s\<rparr> | _ \<Rightarrow> e)\<rparr>,
      \<lparr>goName = ''approved'', jsonTag = [], getField = (\<lambda>e. GoString (ea_approved e)),
        setField = (\<lambda>v e. case v of GoString s \<Rightarrow> e\<lparr>ea_approved := s\<rparr> | _ \<Rightarrow> e)\<rparr>,
      \<lparr>goName = ''TokenID'', jsonTag = [], getField = (\<lambda>e. GoInt (ea_TokenID e)),
        setField = (\<lambda>v e. case v of GoInt n \<Rightarrow> e\<lparr>ea_TokenID := n\<rparr> | _ \<Rightarrow> e)\<rparr>]"

definition approvalPrefix :: string where "approvalPrefix = ''approval''"
definition nftPrefix :: string where "nftPrefix = ''nft''"
definition balancePrefix :: string where "balancePrefix = ''balance''"

record Token =
  TokenID :: int64
  TokenURI :: string
  Name :: string
  Symbol :: string
  Owner :: string
  Approved :: string

definition Token_fields :: "Token field list" where
  "Token_fields =
     [\<lparr>goName = ''TokenID'', jsonTag = ''tokenID'', getField = (\<lambda>t. GoInt (TokenID t)),
        setField = (\<lambda>v t. case v of GoInt n \<Rightarrow> t\<lparr>TokenID := n\<rparr> | _ \<Rightarrow> t)\<rparr>,
      \<lparr>goName = ''TokenURI'', jsonTag = ''tokenURI'', getField = (\<lambda>t. GoString (TokenURI t)),
        setField = (\<lambda>v t. case v of GoString s \<Rightarrow> t\<lparr>TokenURI := s\<rparr> | _ \<Rightarrow> t)\<rparr>,
      \<lparr>goName = ''Name'', jsonTag = ''name'', getField = (\<lambda>t. GoString (Name t)),
        setField = (\<lambda>v t. case v of GoString s \<Rightarrow> t\<lparr>Name := s\<rparr> | _ \<Rightarrow> t)\<rparr>,
      \<lparr>goName = ''Symbol'', jsonTag = ''symbol'', getField = (\<lambda>t. GoString (Symbol t)),
        setField = (\<lambda>v t. case v of GoString s \<Rightarrow> t\<lparr>Symbol := s\<rparr> | _ \<Rightarrow> t)\<rparr>,
      \<lparr>goName = ''Owner'', jsonTag = ''owner'', getField = (\<lambda>t. GoString (Owner t)),
        setField = (\<lambda>v t. case v of GoString s \<Rightarrow> t\<lparr>Owner := s\<rparr> | _ \<Rightarrow> t)\<rparr>,
      \<lparr>goName = ''Approved'', jsonTag = ''approved'', getField = (\<lambda>t. GoString (Approved t)),
        setField = (\<lambda>v t. case v of GoString s \<Rightarrow> t\<lparr>Approved := s\<rparr> | _ \<Rightarrow> t)\<rparr>]"

definition zero_Token :: Token where
  "zero_Token = \<lparr>TokenID = 0, TokenURI = [], Name = [], Symbol = [], Owner = [], Approved = []\<rparr>"

subsection \<open>The ledger accessor and the transaction context\<close>

text \<open>
  Modelled from the spec: the ledger accessor (the chaincode stub of the Fabric shim,
  which is not part of this repository's sources). The spec gives it as
  \<^verbatim>\<open>get(key) -> bytes | absent\<close>, \<^verbatim>\<open>put(key, bytes)\<close>, \<^verbatim>\<open>delete(key)\<close>,
  \<^verbatim>\<open>makeCompositeKey(prefix, segments) -> key\<close> and
  \<^verbatim>\<open>rangeByPartialKey(prefix, segments) -> sequence of (key, value)\<close>, with composite
  keys that never collide for distinct prefixes or segments. A key is therefore either a
  plain string or a prefix with its list of segments, and none of the accessor's calls
  fails; the \<^verbatim>\<open>err != nil\<close> branches after them are never taken.
\<close>

datatype key = SimpleKey string | CompositeKey string "string list"

type_synonym worldstate = "(key \<times> bytes) list"

text \<open>
  The transaction context: the identity of the submitting client (\<^verbatim>\<open>getID\<close>,
  \<^verbatim>\<open>getMSPID\<close>), the transaction's id and timestamp (offered by the stub, read by no
  function of the contract), the world state, and the event set by the transaction.
\<close>

record TransactionContext =
  clientID :: string
  clientMSPID :: string
  txID :: string
  txTimestamp :: int
  world :: worldstate
  event :: "(string \<times> bytes) option"

text \<open>
  Modelled from the spec: the operations of the ledger accessor on that state. The world
  state is an association list with one entry per key. A write takes effect at once; no
  function of the contract reads a key after writing in the same call, so this agrees
  with a ledger that applies the writes of a transaction when it commits.
\<close>

definition CreateCompositeKey :: "string \<Rightarrow> string list \<Rightarrow> key" where
  "CreateCompositeKey objectType attributes = CompositeKey objectType attributes"

definition GetState :: "TransactionContext \<Rightarrow> key \<Rightarrow> bytes option" where
  "GetState ctx k = map_of (world ctx) k"

definition PutState :: "TransactionContext \<Rightarrow> key \<Rightarrow> bytes \<Rightarrow> TransactionContext" where
  "PutState ctx k v = ctx\<lparr>world := AList.update k v (world ctx)\<rparr>"

definition DeleteState :: "TransactionContext \<Rightarrow> key \<Rightarrow> TransactionContext" where
  "DeleteState ctx k = ctx\<lparr>world := AList.delete k (world ctx)\<rparr>"

definition SetEvent :: "TransactionContext \<Rightarrow> string \<Rightarrow> bytes \<Rightarrow> TransactionContext" where
  "SetEvent ctx name payload = ctx\<lparr>event := Some (name, payload)\<rparr>"

definition matchesPartial :: "string \<Rightarrow> string list \<Rightarrow> key \<Rightarrow> bool" where
  "matchesPartial objectType attributes k =
     (case k of
        SimpleKey _ \<Rightarrow> False
      | CompositeKey p segs \<Rightarrow> p = objectType \<and> prefix attributes segs)"

definition GetStateByPartialCompositeKey ::
    "TransactionContext \<Rightarrow> string \<Rightarrow> string list \<Rightarrow> (key \<times> bytes) list" where
  "GetStateByPartialCompositeKey ctx objectType attributes =
     filter (\<lambda>kv. matchesPartial objectType attributes (fst kv)) (world ctx)"

text \<open>The value of a balance-index entry: \<^verbatim>\<open>Buffer.from('\u0000')\<close>, one NUL byte.\<close>

definition sentinel :: bytes where
  "sentinel = NonJSON [CHR 0x00]"

subsection \<open>Errors\<close>

datatype error =
    ClientNotAuthorizedToMint
  | DoesNotExist string
  | UnmarshallingFailed json_error
  | CannotGetToken string error
  | AlreadyMinted string
  | InvalidTokenID string
  | NotOwnerNorOperator string string string
  | NoOwnerAssigned string

subsection \<open>The contract\<close>

definition ReadNFT :: "TransactionContext \<Rightarrow> string \<Rightarrow> error + Token" where
  "ReadNFT ctx TokenID' =
     (let nftKey = CreateCompositeKey nftPrefix [TokenID'] in
      (case GetState ctx nftKey of
         None \<Rightarrow> Inl (DoesNotExist TokenID')
       | Some nftBytes \<Rightarrow>
           if nftBytes = NonJSON [] then Inl (DoesNotExist TokenID')
           else (case Unmarshal Token_fields nftBytes zero_Token of
                   (Some err, _) \<Rightarrow> Inl (UnmarshallingFailed err)
                 | (None, tokenData) \<Rightarrow> Inr tokenData)))"

definition MintWithTokenURI ::
    "TransactionContext \<Rightarrow> string \<Rightarrow> string \<Rightarrow> error option \<times> TransactionContext" where
  "MintWithTokenURI ctx TokenID' TokenURI' =
     (if clientMSPID ctx \<noteq> ''Org1MSP'' then (Some ClientNotAuthorizedToMint, ctx)
      else
        (let minter = clientID ctx in
         (case ReadNFT ctx TokenID' of
            Inl err \<Rightarrow> (Some (CannotGetToken TokenID' err), ctx)
          | Inr tokens \<Rightarrow>
              if Owner tokens \<noteq> [] then (Some (AlreadyMinted TokenID'), ctx)
              else
                (case Atoi TokenID' of
                   None \<Rightarrow> (Some (InvalidTokenID TokenID'), ctx)
                 | Some TokenIDInt \<Rightarrow>
                   let token = \<lparr>TokenID = TokenIDInt, TokenURI = TokenURI', Name = [],
                                Symbol = [], Owner = minter, Approved = []\<rparr>;
                       tokenJSON = Marshal Token_fields token;
                       nftKey = CreateCompositeKey nftPrefix [TokenID'];
                       ctx1 = PutState ctx nftKey tokenJSON;
                       balanceKey = CreateCompositeKey balancePrefix [minter, TokenID'];
                       ctx2 = PutState ctx1 balanceKey sentinel;
                       transferEvent = \<lparr>et_from = ''0x0'', et_to = minter,
                                        et_TokenID = TokenIDInt\<rparr>;
                       transferEventJSON = Marshal eventtoken_fields transferEvent
                   in (None, SetEvent ctx2 ''Transfer'' transferEventJSON)))))"

definition IsApprovedForAll ::
    "TransactionContext \<Rightarrow> string \<Rightarrow> string \<Rightarrow> bool \<times> error option" where
  "IsApprovedForAll ctx owner' operator' =
     (let approvalKey = CreateCompositeKey approvalPrefix [owner', operator'] in
      (case GetState ctx approvalKey of
         Some ApprovalBytes \<Rightarrow>
           (let ApprovalData =
                  snd (Unmarshal eventApprovedForAll_fields ApprovalBytes zero_eventApprovedForAll)
            in (approved ApprovalData, None))
       | None \<Rightarrow> (False, None)))"

definition TransferFrom ::
    "TransactionContext \<Rightarrow> string \<Rightarrow> string \<Rightarrow> string \<Rightarrow> error option \<times> TransactionContext" where
  "TransferFrom ctx from' to' TokenID' =
     (case Atoi TokenID' of
        None \<Rightarrow> (Some (InvalidTokenID TokenID'), ctx)
      | Some TokenIDInt \<Rightarrow>
          (case ReadNFT ctx TokenID' of
             Inl err \<Rightarrow> (Some (CannotGetToken TokenID' err), ctx)
           | Inr tokens \<Rightarrow>
               let owner' = Owner tokens;
                   approved' = Approved tokens;
                   operatorApproval = fst (IsApprovedForAll ctx owner' from')
               in if owner' \<noteq> from' \<and> approved' \<noteq> from' \<and> \<not> operatorApproval
                  then (Some (NotOwnerNorOperator from' owner' TokenID'), ctx)
                  else
                    let tokens1 = tokens\<lparr>Owner := to', Approved := []\<rparr>;
                        tokenJSON = Marshal Token_fields tokens1;
                        nftKey = CreateCompositeKey nftPrefix [TokenID'];
                        ctx1 = PutState ctx nftKey tokenJSON;
                        balanceKeyFrom = CreateCompositeKey balancePrefix [from', TokenID'];
                        ctx2 = DeleteState ctx1 balanceKeyFrom;
                        balanceKeyTo = CreateCompositeKey balancePrefix [to', TokenID'];
                        ctx3 = PutState ctx2 balanceKeyTo sentinel;
                        transferEvent = \<lparr>et_from = from', et_to = to',
                                         et_TokenID = TokenIDInt\<rparr>;
                        transferEventJSON = Marshal eventtoken_fields transferEvent
                    in (None, SetEvent ctx3 ''Transfer'' transferEventJSON)))"

text \<open>
  \<^verbatim>\<open>Approve\<close> and \<^verbatim>\<open>Burn\<close> are declared to return \<^verbatim>\<open>bool\<close>; their first return
  statement hands back the error of \<^verbatim>\<open>strconv.Atoi\<close> instead, which is the \<open>Inl\<close> of
  the result. The event of \<^verbatim>\<open>Approve\<close> names a variable \<^verbatim>\<open>owner\<close> that the function does
  not declare; the token's owner stands for it (the field is not exported and never
  reaches the payload).
\<close>

definition Approve ::
    "TransactionContext \<Rightarrow> string \<Rightarrow> string \<Rightarrow> (error + bool) \<times> TransactionContext" where
  "Approve ctx approved' TokenID' =
     (case Atoi TokenID' of
        None \<Rightarrow> (Inl (InvalidTokenID TokenID'), ctx)
      | Some TokenIDInt \<Rightarrow>
          (let sender = clientID ctx in
           (case ReadNFT ctx TokenID' of
              Inl err \<Rightarrow> (Inr False, ctx)
            | Inr tokens \<Rightarrow>
                (let tokenOwner = Owner tokens in
                 (case GetState ctx (SimpleKey approved') of
                    None \<Rightarrow> (Inr False, ctx)
                  | Some ApprovedBytes \<Rightarrow>
                      (let operatorApproval = fst (IsApprovedForAll ctx tokenOwner sender)
                       in if sender \<noteq> tokenOwner \<and> \<not> operatorApproval
                          then (Inr False, ctx)
                          else
                            (let tokens1 = tokens\<lparr>Approved := approved'\<rparr>;
                                 tokensJSON = Marshal Token_fields tokens1;
                                 nftKey = CreateCompositeKey nftPrefix [TokenID'];
                                 ctx1 = PutState ctx nftKey tokensJSON;
                                 approvalEvent = \<lparr>ea_owner = tokenOwner,
                                   ea_approved = approved', ea_TokenID = TokenIDInt\<rparr>;
                                 approvalEventJSON = Marshal eventApproved_fields approvalEvent
                             in (Inr True, SetEvent ctx1 ''Approval'' approvalEventJSON))))))))"

definition SetApprovalForAll ::
    "TransactionContext \<Rightarrow> string \<Rightarrow> bool \<Rightarrow> (bool \<times> error option) \<times> TransactionContext" where
  "SetApprovalForAll ctx operator' approved' =
     (let sender = clientID ctx;
          approvalKey = CreateCompositeKey approvalPrefix [sender, operator'];
          approval = \<lparr>owner = sender, operator = operator', approved = approved'\<rparr>;
          approvalJSON = Marshal eventApprovedForAll_fields approval;
          ctx1 = PutState ctx approvalKey approvalJSON;
          approvalForAllEvent = \<lparr>owner = sender, operator = operator', approved = approved'\<rparr>;
          approvalEventJSON = Marshal eventApprovedForAll_fields approvalForAllEvent
      in ((True, None), SetEvent ctx1 ''ApprovalForAll'' approvalEventJSON))"

definition GetApproved :: "TransactionContext \<Rightarrow> string \<Rightarrow> string \<times> error option" where
  "GetApproved ctx TokenID' =
     (case ReadNFT ctx TokenID' of
        Inl err \<Rightarrow> ([], Some (CannotGetToken TokenID' err))
      | Inr token \<Rightarrow> (Approved token, None))"

definition OwnerOf :: "TransactionContext \<Rightarrow> string \<Rightarrow> string \<times> error option" where
  "OwnerOf ctx TokenID' =
     (case ReadNFT ctx TokenID' of
        Inl err \<Rightarrow> ([], Some (CannotGetToken TokenID' err))
      | Inr token \<Rightarrow>
          let owner' = Owner token in
          if owner' = [] then ([], Some (NoOwnerAssigned TokenID')) else (owner', None))"

definition Burn :: "TransactionContext \<Rightarrow> string \<Rightarrow> (error + bool) \<times> TransactionContext" where
  "Burn ctx TokenID' =
     (let owner' = clientID ctx in
      (case Atoi TokenID' of
        None \<Rightarrow> (Inl (InvalidTokenID TokenID'), ctx)
      | Some TokenIDInt \<Rightarrow>
          (case ReadNFT ctx TokenID' of
             Inl err \<Rightarrow> (Inr False, ctx)
           | Inr token \<Rightarrow>
               let NftOwner = Owner token in
               if NftOwner \<noteq> owner' then (Inr False, ctx)
               else
                 let nftKey = CreateCompositeKey nftPrefix [TokenID'];
                     ctx1 = DeleteState ctx nftKey;
                     balanceKey = CreateCompositeKey balancePrefix [owner', TokenID'];
                     ctx2 = DeleteState ctx1 balanceKey;
                     transferEvent = \<lparr>et_from = owner', et_to = ''0x0'',
                                      et_TokenID = TokenIDInt\<rparr>;
                     transferEventJSON = Marshal eventtoken_fields transferEvent
                 in (Inr True, SetEvent ctx2 ''Transfer'' transferEventJSON))))"

definition BalanceOf :: "TransactionContext \<Rightarrow> string \<Rightarrow> nat" where
  "BalanceOf ctx Owner' = length (GetStateByPartialCompositeKey ctx balancePrefix [Owner'])"

definition ClientAccountBalance :: "TransactionContext \<Rightarrow> nat" where
  "ClientAccountBalance ctx = (let clientAccountID = clientID ctx in BalanceOf ctx clientAccountID)"

definition ClientAccountID :: "TransactionContext \<Rightarrow> string" where
  "ClientAccountID ctx = (let clientAccountID = clientID ctx in clientAccountID)"

subsection \<open>Notions of the specification\<close>

text \<open>
  The number of token records whose owner field is \<open>holder\<close>: the entries under the
  \<^verbatim>\<open>nft\<close> prefix that decode to a token with that owner.
\<close>

definition isTokenRecordOf :: "string \<Rightarrow> key \<times> bytes \<Rightarrow> bool" where
  "isTokenRecordOf holder kv =
     (case fst kv of
        CompositeKey p [tid] \<Rightarrow>
          p = nftPrefix \<and>
          (case Unmarshal Token_fields (snd kv) zero_Token of
             (None, t) \<Rightarrow> Owner t = holder
           | (Some err, _) \<Rightarrow> False)
      | _ \<Rightarrow> False)"

definition tokenRecordsOwnedBy :: "TransactionContext \<Rightarrow> string \<Rightarrow> nat" where
  "tokenRecordsOwnedBy ctx holder = length (filter (isTokenRecordOf holder) (world ctx))"

text \<open>
  Two contexts give a transaction the same inputs when the caller, the caller's
  organization, the event slot and the ledger snapshot (the set of key-value pairs of a
  well-formed world state, whatever order it is held in) are the same. The transaction id
  and the timestamp may differ.
\<close>

definition sameSnapshot :: "TransactionContext \<Rightarrow> TransactionContext \<Rightarrow> bool" where
  "sameSnapshot c1 c2 =
     (clientID c1 = clientID c2 \<and> clientMSPID c1 = clientMSPID c2 \<and>
      distinct (map fst (world c1)) \<and> distinct (map fst (world c2)) \<and>
      set (world c1) = set (world c2) \<and> event c1 = event c2)"

text \<open>
  Two runs have the same outcome when they return the same result and leave the same
  ledger snapshot and the same event.
\<close>

definition sameOutcome :: "'r \<times> TransactionContext \<Rightarrow> 'r \<times> TransactionContext \<Rightarrow> bool" where
  "sameOutcome r1 r2 = (fst r1 = fst r2 \<and> sameSnapshot (snd r1) (snd r2))"

subsection \<open>Example ledgers\<close>

definition newContext :: "string \<Rightarrow> string \<Rightarrow> worldstate \<Rightarrow> TransactionContext" where
  "newContext caller msp w =
     \<lparr>clientID = caller, clientMSPID = msp, txID = ''tx1'', txTimestamp = 0, world = w,
      event = None\<rparr>"

text \<open>Token 1, held by alice, with bob approved for it, and its balance-index entry.\<close>

definition token1 :: Token where
  "token1 = \<lparr>TokenID = 1, TokenURI = ''ipfs://x'', Name = [], Symbol = [], Owner = ''alice'',
     Approved = ''bob''\<rparr>"

definition world1 :: worldstate where
  "world1 = [(CreateCompositeKey nftPrefix [''1''], Marshal Token_fields token1),
             (CreateCompositeKey balancePrefix [''alice'', ''1''], sentinel)]"

text \<open>The same ledger with an entry under the plain key \<^verbatim>\<open>carol\<close>.\<close>

definition world2 :: worldstate where
  "world2 = world1 @ [(SimpleKey ''carol'', NonJSON ''account'')]"

text \<open>A ledger whose record for token 7 has an empty owner.\<close>

definition token7 :: Token where
  "token7 = \<lparr>TokenID = 7, TokenURI = ''ipfs://y'', Name = [], Symbol = [], Owner = [],
     Approved = []\<rparr>"

definition world7 :: worldstate where
  "world7 = [(CreateCompositeKey nftPrefix [''7''], Marshal Token_fields token7)]"

section \<open>Properties\<close>

subsection \<open>JSON encoding of the structs\<close>

lemma exported_Token_fields: "filter exported Token_fields = Token_fields"
  by (simp add: Token_fields_def exported_def upperChars_def)

lemma exported_eventApprovedForAll_fields: "filter exported eventApprovedForAll_fields = []"
  by (simp add: eventApprovedForAll_fields_def exported_def upperChars_def)

lemma sint_int64_range:
  "- 9223372036854775808 \<le> sint (w::int64)" "sint (w::int64) < 9223372036854775808"
  using sint_ge[of w] sint_lt[of w] by simp_all

text \<open>A token survives being stored and read back: all its fields are exported.\<close>

lemma Unmarshal_Marshal_Token:
  "Unmarshal Token_fields (Marshal Token_fields t) zero_Token = (None, t)"
  by (simp add: Unmarshal_def Marshal_def exported_Token_fields)
     (simp add: Token_fields_def jsonName_def json_of_def findField_def exported_def
        upperChars_def zero_Token_def sint_int64_range)

lemma Marshal_not_empty: "Marshal fs x \<noteq> NonJSON []"
  by (simp add: Marshal_def)

lemma decodeObject_no_exported: "filter exported fs = [] \<Longrightarrow> decodeObject fs kvs r = r"
  by (induction fs kvs r rule: decodeObject.induct) (simp_all add: findField_def)

text \<open>
  An approval record does not: no field of \<^verbatim>\<open>eventApprovedForAll\<close> is exported, so it is
  written as the empty object and decoding never sets a field.
\<close>

lemma Marshal_eventApprovedForAll: "Marshal eventApprovedForAll_fields e = JSON (JObj [])"
  by (simp add: Marshal_def exported_eventApprovedForAll_fields)

lemma Unmarshal_eventApprovedForAll:
  "snd (Unmarshal eventApprovedForAll_fields b x) = x"
  by (simp add: Unmarshal_def decodeObject_no_exported exported_eventApprovedForAll_fields
      split: bytes.splits json.splits)

subsection \<open>The ledger accessor\<close>

lemma GetState_PutState:
  "GetState (PutState ctx k v) k' = (if k' = k then Some v else GetState ctx k')"
  by (simp add: GetState_def PutState_def update_conv')

lemma GetState_DeleteState:
  "GetState (DeleteState ctx k) k' = (if k' = k then None else GetState ctx k')"
  by (simp add: GetState_def DeleteState_def delete_conv')

lemma GetState_SetEvent: "GetState (SetEvent ctx n p) k = GetState ctx k"
  by (simp add: GetState_def SetEvent_def)

lemma prefixes_distinct:
  "nftPrefix \<noteq> balancePrefix" "balancePrefix \<noteq> nftPrefix"
  "nftPrefix \<noteq> approvalPrefix" "approvalPrefix \<noteq> nftPrefix"
  "balancePrefix \<noteq> approvalPrefix" "approvalPrefix \<noteq> balancePrefix"
  by (simp_all add: nftPrefix_def balancePrefix_def approvalPrefix_def)

lemma ReadNFT_stored:
  "GetState ctx (CreateCompositeKey nftPrefix [tid]) = Some (Marshal Token_fields t)
   \<Longrightarrow> ReadNFT ctx tid = Inr t"
  by (simp add: ReadNFT_def Unmarshal_Marshal_Token Marshal_not_empty)

lemma IsApprovedForAll_never: "IsApprovedForAll ctx a b = (False, None)"
  by (simp add: IsApprovedForAll_def Unmarshal_eventApprovedForAll zero_eventApprovedForAll_def
      split: option.splits)

subsection \<open>The example ledgers\<close>

lemma Atoi_1: "Atoi ''1'' = Some 1"
  by (simp add: Atoi_def digitVal_def)

lemma Atoi_7: "Atoi ''7'' = Some 7"
  by (simp add: Atoi_def digitVal_def)

lemma GetState_world1:
  "GetState (newContext c m world1) (CreateCompositeKey nftPrefix [''1'']) =
     Some (Marshal Token_fields token1)"
  by (simp add: GetState_def newContext_def world1_def)

lemma ReadNFT_world1: "ReadNFT (newContext c m world1) ''1'' = Inr token1"
  by (rule ReadNFT_stored) (rule GetState_world1)

lemma ReadNFT_world2: "ReadNFT (newContext c m world2) ''1'' = Inr token1"
  by (rule ReadNFT_stored) (simp add: GetState_def newContext_def world1_def world2_def)

lemma ReadNFT_world7: "ReadNFT (newContext c m world7) ''7'' = Inr token7"
  by (rule ReadNFT_stored) (simp add: GetState_def newContext_def world7_def)

subsection \<open>Minting\<close>

text \<open>
  Claim C2 (what the code does): minting a token id for which the ledger holds no record
  does not succeed. \<^verbatim>\<open>MintWithTokenURI\<close> asks \<^verbatim>\<open>ReadNFT\<close> for the token first, and
  \<^verbatim>\<open>ReadNFT\<close> reports a missing record as an error, which the mint hands on: for a caller
  of the issuer organization and a token id with no record the mint returns the error
  "Cannot get token ... does not exist" and writes nothing.
\<close>

theorem MintWithTokenURI_unminted_fails:
  "clientMSPID ctx = ''Org1MSP'' \<Longrightarrow>
   GetState ctx (CreateCompositeKey nftPrefix [tid]) = None \<Longrightarrow>
   MintWithTokenURI ctx tid uri = (Some (CannotGetToken tid (DoesNotExist tid)), ctx)"
  by (simp add: MintWithTokenURI_def ReadNFT_def)

theorem MintWithTokenURI_unminted_fails_witness:
  "Atoi ''1'' = Some 1 \<and>
   MintWithTokenURI (newContext ''alice'' ''Org1MSP'' []) ''1'' ''ipfs://x'' =
     (Some (CannotGetToken ''1'' (DoesNotExist ''1'')), newContext ''alice'' ''Org1MSP'' [])"
  using MintWithTokenURI_unminted_fails [of "newContext ''alice'' ''Org1MSP'' []" "''1''" "''ipfs://x''"]
  by (simp add: Atoi_1 newContext_def GetState_def)

subsection \<open>Operator approvals\<close>

text \<open>
  Claim C3 (what the code does): after \<^verbatim>\<open>SetApprovalForAll\<close> by a caller with operator
  \<open>B\<close> and approved = true, \<^verbatim>\<open>IsApprovedForAll\<close> of the caller and \<open>B\<close> returns false.
  The approval record is written as the empty JSON object, since the struct has no
  exported field, and reading it back leaves the flag at its zero value.
\<close>

theorem SetApprovalForAll_true_reads_false:
  "IsApprovedForAll (snd (SetApprovalForAll ctx B True)) (clientID ctx) B = (False, None)"
  by (simp add: SetApprovalForAll_def IsApprovedForAll_def GetState_PutState GetState_SetEvent
      Unmarshal_eventApprovedForAll zero_eventApprovedForAll_def Let_def)

theorem SetApprovalForAll_true_reads_false_witness:
  "GetState (snd (SetApprovalForAll (newContext ''alice'' ''Org1MSP'' []) ''bob'' True))
     (CreateCompositeKey approvalPrefix [''alice'', ''bob'']) = Some (JSON (JObj [])) \<and>
   IsApprovedForAll (snd (SetApprovalForAll (newContext ''alice'' ''Org1MSP'' []) ''bob'' True))
     ''alice'' ''bob'' = (False, None)"
  using SetApprovalForAll_true_reads_false [of "newContext ''alice'' ''Org1MSP'' []" "''bob''"]
  by (simp add: newContext_def SetApprovalForAll_def GetState_PutState GetState_SetEvent
      Marshal_eventApprovedForAll Let_def)

subsection \<open>Reading a token\<close>

lemma Unmarshal_NonJSON: "Unmarshal fs (NonJSON s) x = (Some SyntaxError, x)"
  by (simp add: Unmarshal_def)

text \<open>
  Claim C5, as stated, fails on the code: a stored record whose owner field is the empty
  string is decoded and returned, it is not reported as missing. Token 7 of the example
  ledger is such a record.
\<close>

theorem ReadNFT_returns_record_without_owner:
  "Owner token7 = [] \<and>
   GetState (newContext ''alice'' ''Org1MSP'' world7) (CreateCompositeKey nftPrefix [''7'']) =
     Some (Marshal Token_fields token7) \<and>
   ReadNFT (newContext ''alice'' ''Org1MSP'' world7) ''7'' = Inr token7"
  by (simp add: ReadNFT_world7) (simp add: token7_def GetState_def newContext_def world7_def)

text \<open>
  Claim C5, amended: \<^verbatim>\<open>ReadNFT\<close> fails with the not-found condition exactly when no
  value, or an empty value, is stored under the token's \<^verbatim>\<open>nft\<close> composite key. For any
  other stored value it returns what \<^verbatim>\<open>json.Unmarshal\<close> yields: a decoding error when the
  bytes do not decode into a token, and the decoded token otherwise. A record written by
  the contract is returned as it was written, whatever its owner field, the empty string
  included.
\<close>

theorem ReadNFT_cases:
  "((ReadNFT ctx tid = Inl (DoesNotExist tid)) =
      (GetState ctx (CreateCompositeKey nftPrefix [tid]) = None \<or>
       GetState ctx (CreateCompositeKey nftPrefix [tid]) = Some (NonJSON []))) \<and>
   (\<forall>b. GetState ctx (CreateCompositeKey nftPrefix [tid]) = Some b \<and> b \<noteq> NonJSON [] \<longrightarrow>
      ReadNFT ctx tid =
        (case Unmarshal Token_fields b zero_Token of
           (Some err, _) \<Rightarrow> Inl (UnmarshallingFailed err)
         | (None, tokenData) \<Rightarrow> Inr tokenData)) \<and>
   (\<forall>t. GetState ctx (CreateCompositeKey nftPrefix [tid]) = Some (Marshal Token_fields t) \<longrightarrow>
      ReadNFT ctx tid = Inr t)"
  by (auto simp add: ReadNFT_def Unmarshal_Marshal_Token Marshal_not_empty
      split: option.splits prod.splits)

theorem ReadNFT_cases_witness:
  "ReadNFT (newContext ''alice'' ''Org1MSP'' []) ''7'' = Inl (DoesNotExist ''7'') \<and>
   GetState (newContext ''alice'' ''Org1MSP'' world7) (CreateCompositeKey nftPrefix [''7'']) =
     Some (Marshal Token_fields token7) \<and>
   ReadNFT (newContext ''alice'' ''Org1MSP'' world7) ''7'' = Inr token7 \<and>
   ReadNFT (newContext ''alice'' ''Org1MSP'' [(CreateCompositeKey nftPrefix [''7''], sentinel)])
     ''7'' = Inl (UnmarshallingFailed SyntaxError)"
  using ReadNFT_cases [of "newContext ''alice'' ''Org1MSP'' []" "''7''"]
    ReadNFT_cases [of "newContext ''alice'' ''Org1MSP'' world7" "''7''"]
    ReadNFT_cases
      [of "newContext ''alice'' ''Org1MSP'' [(CreateCompositeKey nftPrefix [''7''], sentinel)]"
        "''7''"]
  by (simp add: GetState_def newContext_def world7_def sentinel_def Unmarshal_NonJSON)

subsection \<open>Minting an existing token\<close>

text \<open>
  Claim C7: when the stored record of a token id has a non-empty owner, minting that id
  again fails and changes nothing: the context after the call, with its token record,
  balance index and event, is the context before it. For a caller that passes the issuer
  check (a second mint) the failure is the "already minted" condition; a caller of
  another organization is turned away by the issuer check, which comes first.
\<close>

theorem MintWithTokenURI_minted_fails:
  "ReadNFT ctx tid = Inr tok \<Longrightarrow> Owner tok \<noteq> [] \<Longrightarrow>
   MintWithTokenURI ctx tid uri =
     (Some (if clientMSPID ctx = ''Org1MSP'' then AlreadyMinted tid
            else ClientNotAuthorizedToMint), ctx)"
  by (simp add: MintWithTokenURI_def)

theorem MintWithTokenURI_minted_fails_witness:
  "ReadNFT (newContext ''alice'' ''Org1MSP'' world1) ''1'' = Inr token1 \<and>
   Owner token1 \<noteq> [] \<and>
   MintWithTokenURI (newContext ''alice'' ''Org1MSP'' world1) ''1'' ''ipfs://z'' =
     (Some (AlreadyMinted ''1''), newContext ''alice'' ''Org1MSP'' world1)"
  using MintWithTokenURI_minted_fails [OF ReadNFT_world1, of "''alice''" "''Org1MSP''" "''ipfs://z''"]
  by (simp add: ReadNFT_world1) (simp add: newContext_def token1_def)

subsection \<open>Transfers\<close>

lemma identity_kept:
  "clientID (PutState ctx k v) = clientID ctx" "clientMSPID (PutState ctx k v) = clientMSPID ctx"
  "clientID (DeleteState ctx k) = clientID ctx" "clientMSPID (DeleteState ctx k) = clientMSPID ctx"
  "clientID (SetEvent ctx n p) = clientID ctx" "clientMSPID (SetEvent ctx n p) = clientMSPID ctx"
  by (simp_all add: PutState_def DeleteState_def SetEvent_def)

text \<open>The writes of a transfer that passes the authorization check.\<close>

lemma TransferFrom_authorized:
  assumes "Atoi tid = Some n" "ReadNFT ctx tid = Inr tok"
    and "from' = Owner tok \<or> from' = Approved tok \<or> fst (IsApprovedForAll ctx (Owner tok) from')"
  shows "TransferFrom ctx from' to' tid =
    (None,
     SetEvent
       (PutState
          (DeleteState
             (PutState ctx (CreateCompositeKey nftPrefix [tid])
                (Marshal Token_fields (tok\<lparr>Owner := to', Approved := []\<rparr>)))
             (CreateCompositeKey balancePrefix [from', tid]))
          (CreateCompositeKey balancePrefix [to', tid]) sentinel)
       ''Transfer''
       (Marshal eventtoken_fields \<lparr>et_from = from', et_to = to', et_TokenID = n\<rparr>))"
  using assms by (auto simp add: TransferFrom_def Let_def)

text \<open>
  Claim C4: for a token that exists (its id parses as an integer and \<^verbatim>\<open>ReadNFT\<close> returns
  its record), \<^verbatim>\<open>TransferFrom(from, to, tokenID)\<close> succeeds exactly when \<open>from\<close> is the
  token's owner, or the token's approved party, or \<^verbatim>\<open>IsApprovedForAll(owner, from)\<close> holds;
  the identity of the caller plays no part. After a successful transfer the stored token
  has owner \<open>to\<close> and an empty approved field, and \<^verbatim>\<open>GetApproved\<close> returns the empty string.
\<close>

theorem TransferFrom_succeeds_iff:
  "Atoi tid = Some n \<Longrightarrow> ReadNFT ctx tid = Inr tok \<Longrightarrow>
   ((fst (TransferFrom ctx from' to' tid) = None) =
      (from' = Owner tok \<or> from' = Approved tok \<or>
       fst (IsApprovedForAll ctx (Owner tok) from'))) \<and>
   (fst (TransferFrom ctx from' to' tid) = None \<longrightarrow>
      ReadNFT (snd (TransferFrom ctx from' to' tid)) tid =
        Inr (tok\<lparr>Owner := to', Approved := []\<rparr>) \<and>
      GetApproved (snd (TransferFrom ctx from' to' tid)) tid = ([], None))"
  by (auto simp add: TransferFrom_def Let_def GetApproved_def ReadNFT_stored GetState_PutState
      GetState_DeleteState GetState_SetEvent CreateCompositeKey_def prefixes_distinct)

theorem TransferFrom_succeeds_iff_witness:
  "Atoi ''1'' = Some 1 \<and>
   ReadNFT (newContext ''carol'' ''Org2MSP'' world1) ''1'' = Inr token1 \<and>
   ''bob'' = Approved token1 \<and>
   fst (TransferFrom (newContext ''carol'' ''Org2MSP'' world1) ''bob'' ''carol'' ''1'') = None \<and>
   GetApproved
     (snd (TransferFrom (newContext ''carol'' ''Org2MSP'' world1) ''bob'' ''carol'' ''1''))
     ''1'' = ([], None) \<and>
   fst (TransferFrom (newContext ''carol'' ''Org2MSP'' world1) ''dave'' ''carol'' ''1'') \<noteq> None"
  using
    TransferFrom_succeeds_iff
      [OF Atoi_1 ReadNFT_world1, of "''carol''" "''Org2MSP''" "''bob''" "''carol''"]
    TransferFrom_succeeds_iff
      [OF Atoi_1 ReadNFT_world1, of "''carol''" "''Org2MSP''" "''dave''" "''carol''"]
  by (simp add: Atoi_1 ReadNFT_world1 IsApprovedForAll_never) (simp add: token1_def)

text \<open>
  Claim C10: \<^verbatim>\<open>TransferFrom\<close> does not examine \<open>to\<close>. For an existing token and any string
  \<open>to\<close>, a transfer that passes the authorization check succeeds, stores the token with
  owner \<open>to\<close> and adds the balance-index entry of \<open>to\<close> for the token. When \<open>to\<close> is the
  empty string the stored record is one that \<^verbatim>\<open>OwnerOf\<close> reports as having no owner and
  that a mint by the issuer organization overwrites as if the token had never been minted.
\<close>

theorem TransferFrom_any_recipient:
  "Atoi tid = Some n \<Longrightarrow> ReadNFT ctx tid = Inr tok \<Longrightarrow>
   from' = Owner tok \<or> from' = Approved tok \<or> fst (IsApprovedForAll ctx (Owner tok) from') \<Longrightarrow>
   fst (TransferFrom ctx from' to' tid) = None \<and>
   ReadNFT (snd (TransferFrom ctx from' to' tid)) tid =
     Inr (tok\<lparr>Owner := to', Approved := []\<rparr>) \<and>
   GetState (snd (TransferFrom ctx from' to' tid)) (CreateCompositeKey balancePrefix [to', tid])
     = Some sentinel \<and>
   (to' = [] \<longrightarrow>
      OwnerOf (snd (TransferFrom ctx from' to' tid)) tid = ([], Some (NoOwnerAssigned tid)) \<and>
      (clientMSPID ctx = ''Org1MSP'' \<longrightarrow>
         fst (MintWithTokenURI (snd (TransferFrom ctx from' to' tid)) tid uri) = None))"
proof -
  assume a: "Atoi tid = Some n" and r: "ReadNFT ctx tid = Inr tok"
    and auth: "from' = Owner tok \<or> from' = Approved tok \<or>
      fst (IsApprovedForAll ctx (Owner tok) from')"
  let ?ctx' = "snd (TransferFrom ctx from' to' tid)"
  note tf = TransferFrom_authorized [OF a r auth, of to']
  have ok: "fst (TransferFrom ctx from' to' tid) = None"
    by (simp add: tf)
  have stored: "GetState ?ctx' (CreateCompositeKey nftPrefix [tid]) =
      Some (Marshal Token_fields (tok\<lparr>Owner := to', Approved := []\<rparr>))"
    by (simp add: tf GetState_SetEvent GetState_PutState GetState_DeleteState
        CreateCompositeKey_def prefixes_distinct)
  have rd: "ReadNFT ?ctx' tid = Inr (tok\<lparr>Owner := to', Approved := []\<rparr>)"
    by (rule ReadNFT_stored) (rule stored)
  have bal: "GetState ?ctx' (CreateCompositeKey balancePrefix [to', tid]) = Some sentinel"
    by (simp add: tf GetState_SetEvent GetState_PutState)
  have msp: "clientMSPID ?ctx' = clientMSPID ctx"
    by (simp add: tf identity_kept)
  have own: "to' = [] \<longrightarrow> OwnerOf ?ctx' tid = ([], Some (NoOwnerAssigned tid))"
    using rd by (auto simp add: OwnerOf_def)
  have mint: "to' = [] \<longrightarrow> clientMSPID ctx = ''Org1MSP'' \<longrightarrow>
      fst (MintWithTokenURI ?ctx' tid uri) = None"
    using rd msp a by (auto simp add: MintWithTokenURI_def Let_def)
  show ?thesis
    using ok rd bal own mint by simp
qed

theorem TransferFrom_any_recipient_witness:
  "Atoi ''1'' = Some 1 \<and> ReadNFT (newContext ''alice'' ''Org1MSP'' world1) ''1'' = Inr token1 \<and>
   ''alice'' = Owner token1 \<and>
   fst (TransferFrom (newContext ''alice'' ''Org1MSP'' world1) ''alice'' [] ''1'') = None \<and>
   ReadNFT (snd (TransferFrom (newContext ''alice'' ''Org1MSP'' world1) ''alice'' [] ''1'')) ''1'' =
     Inr (token1\<lparr>Owner := [], Approved := []\<rparr>) \<and>
   GetState (snd (TransferFrom (newContext ''alice'' ''Org1MSP'' world1) ''alice'' [] ''1''))
     (CreateCompositeKey balancePrefix [[], ''1'']) = Some sentinel \<and>
   OwnerOf (snd (TransferFrom (newContext ''alice'' ''Org1MSP'' world1) ''alice'' [] ''1'')) ''1'' =
     ([], Some (NoOwnerAssigned ''1'')) \<and>
   fst (MintWithTokenURI
          (snd (TransferFrom (newContext ''alice'' ''Org1MSP'' world1) ''alice'' [] ''1''))
          ''1'' ''ipfs://z'') = None"
  using TransferFrom_any_recipient
    [OF Atoi_1 ReadNFT_world1, of "''alice''" "''alice''" "''Org1MSP''" "[]" "''ipfs://z''"]
  by (simp add: Atoi_1 ReadNFT_world1) (simp add: token1_def newContext_def)

subsection \<open>The balance index\<close>

text \<open>
  A transfer whose \<open>from\<close> is not the owner deletes the index entry of \<open>from\<close>; the entry
  of the owner is not touched.
\<close>

lemma TransferFrom_keeps_owner_entry:
  assumes "Atoi tid = Some n" "ReadNFT ctx tid = Inr tok"
    and "from' = Approved tok \<or> fst (IsApprovedForAll ctx (Owner tok) from')"
    and "from' \<noteq> Owner tok" "to' \<noteq> Owner tok"
  shows "GetState (snd (TransferFrom ctx from' to' tid))
           (CreateCompositeKey balancePrefix [Owner tok, tid]) =
         GetState ctx (CreateCompositeKey balancePrefix [Owner tok, tid])"
proof -
  from assms(3) have auth: "from' = Owner tok \<or> from' = Approved tok \<or>
      fst (IsApprovedForAll ctx (Owner tok) from')"
    by blast
  show ?thesis
    using assms(4,5)
    by (simp add: TransferFrom_authorized [OF assms(1,2) auth] GetState_SetEvent
        GetState_PutState GetState_DeleteState CreateCompositeKey_def prefixes_distinct)
qed

text \<open>On a ledger with no entries no mint, transfer or burn succeeds.\<close>

lemma empty_ledger_no_success:
  assumes "world ctx = []"
  shows "fst (MintWithTokenURI ctx tid uri) \<noteq> None"
    and "fst (TransferFrom ctx from' to' tid) \<noteq> None"
    and "fst (Burn ctx tid) \<noteq> Inr True"
  using assms
  by (simp_all add: MintWithTokenURI_def TransferFrom_def Burn_def ReadNFT_def GetState_def
      Let_def split: option.splits)

lemma TransferFrom_world1:
  "TransferFrom (newContext ''carol'' ''Org2MSP'' world1) ''bob'' ''carol'' ''1'' =
    (None,
     \<lparr>clientID = ''carol'', clientMSPID = ''Org2MSP'', txID = ''tx1'', txTimestamp = 0,
      world =
        [(CreateCompositeKey nftPrefix [''1''],
          Marshal Token_fields (token1\<lparr>Owner := ''carol'', Approved := []\<rparr>)),
         (CreateCompositeKey balancePrefix [''alice'', ''1''], sentinel),
         (CreateCompositeKey balancePrefix [''carol'', ''1''], sentinel)],
      event = Some (''Transfer'', JSON (JObj [(''TokenID'', JInt 1)]))\<rparr>)"
  apply (simp add: TransferFrom_def Atoi_1 ReadNFT_world1 IsApprovedForAll_never Let_def)
  apply (simp add: token1_def)
  apply (simp add: PutState_def DeleteState_def SetEvent_def CreateCompositeKey_def
      newContext_def world1_def nftPrefix_def balancePrefix_def)
  apply (simp add: Marshal_def eventtoken_fields_def exported_def upperChars_def jsonName_def
      json_of_def)
  done

text \<open>
  Claim C1 (what the code does): a transfer authorized through the token's approved party
  leaves the balance index out of step with the token records. In the example ledger
  alice holds token 1 and bob is approved for it; \<^verbatim>\<open>BalanceOf\<close> of alice is 1 and one token
  record has owner alice. \<^verbatim>\<open>TransferFrom\<close> with \<open>from\<close> = bob and \<open>to\<close> = carol succeeds.
  It deletes the index entry of (bob, 1), which does not exist, and keeps the entry of
  (alice, 1): afterwards \<^verbatim>\<open>BalanceOf\<close> of alice is still 1 while no token record has owner
  alice.
\<close>

theorem TransferFrom_by_approved_breaks_index:
  "BalanceOf (newContext ''carol'' ''Org2MSP'' world1) ''alice'' = 1 \<and>
   tokenRecordsOwnedBy (newContext ''carol'' ''Org2MSP'' world1) ''alice'' = 1 \<and>
   fst (TransferFrom (newContext ''carol'' ''Org2MSP'' world1) ''bob'' ''carol'' ''1'') = None \<and>
   BalanceOf (snd (TransferFrom (newContext ''carol'' ''Org2MSP'' world1) ''bob'' ''carol'' ''1''))
     ''alice'' = 1 \<and>
   tokenRecordsOwnedBy
     (snd (TransferFrom (newContext ''carol'' ''Org2MSP'' world1) ''bob'' ''carol'' ''1''))
     ''alice'' = 0"
proof -
  let ?ctx = "newContext ''carol'' ''Org2MSP'' world1"
  let ?ctx' = "snd (TransferFrom ?ctx ''bob'' ''carol'' ''1'')"
  have b0: "BalanceOf ?ctx ''alice'' = 1"
    by (simp add: BalanceOf_def GetStateByPartialCompositeKey_def matchesPartial_def
        newContext_def world1_def CreateCompositeKey_def nftPrefix_def balancePrefix_def)
  have t0: "tokenRecordsOwnedBy ?ctx ''alice'' = 1"
    by (simp add: tokenRecordsOwnedBy_def isTokenRecordOf_def newContext_def world1_def
        CreateCompositeKey_def Unmarshal_Marshal_Token sentinel_def Unmarshal_NonJSON
        prefixes_distinct)
       (simp add: token1_def)
  have ok: "fst (TransferFrom ?ctx ''bob'' ''carol'' ''1'') = None"
    by (simp add: TransferFrom_world1)
  have b1: "BalanceOf ?ctx' ''alice'' = 1"
    by (simp add: TransferFrom_world1 BalanceOf_def GetStateByPartialCompositeKey_def
        matchesPartial_def CreateCompositeKey_def nftPrefix_def balancePrefix_def)
  have t1: "tokenRecordsOwnedBy ?ctx' ''alice'' = 0"
    by (simp add: tokenRecordsOwnedBy_def isTokenRecordOf_def TransferFrom_world1
        CreateCompositeKey_def Unmarshal_Marshal_Token prefixes_distinct sentinel_def
        Unmarshal_NonJSON)
  show ?thesis
    using b0 t0 ok b1 t1 by simp
qed

subsection \<open>Burning\<close>

text \<open>
  Claim C6: for an existing token \<^verbatim>\<open>Burn\<close> succeeds only when the caller is the token's
  owner. Any other caller, the token's approved party or an operator of the owner
  included, gets a failure, and the context after the call is the context before it: the
  token record, the balance index and the approval records are unchanged and no event is
  set.
\<close>

theorem Burn_only_by_owner:
  "ReadNFT ctx tid = Inr tok \<Longrightarrow>
   (fst (Burn ctx tid) = Inr True \<longrightarrow> clientID ctx = Owner tok) \<and>
   (clientID ctx \<noteq> Owner tok \<longrightarrow>
      Burn ctx tid = (if Atoi tid = None then Inl (InvalidTokenID tid) else Inr False, ctx))"
  by (auto simp add: Burn_def Let_def split: option.splits)

theorem Burn_only_by_owner_witness:
  "ReadNFT (newContext ''bob'' ''Org1MSP'' world1) ''1'' = Inr token1 \<and>
   clientID (newContext ''bob'' ''Org1MSP'' world1) = Approved token1 \<and>
   clientID (newContext ''bob'' ''Org1MSP'' world1) \<noteq> Owner token1 \<and>
   Burn (newContext ''bob'' ''Org1MSP'' world1) ''1'' =
     (Inr False, newContext ''bob'' ''Org1MSP'' world1) \<and>
   fst (Burn (newContext ''alice'' ''Org1MSP'' world1) ''1'') = Inr True"
  using Burn_only_by_owner [OF ReadNFT_world1, of "''bob''" "''Org1MSP''"]
  by (simp add: ReadNFT_world1 Atoi_1 Burn_def Let_def) (simp add: newContext_def token1_def)

subsection \<open>Approving\<close>

text \<open>
  Claim C8: for an existing token \<^verbatim>\<open>Approve(approved, tokenID)\<close> succeeds only when a value
  is stored in the ledger under the key \<open>approved\<close> (the existence check) and the caller is
  the token's owner or \<^verbatim>\<open>IsApprovedForAll(owner, caller)\<close> holds; after a success the
  stored token's approved field is \<open>approved\<close>. A caller who is neither owner nor operator,
  such as the holder of the per-token approval, fails and nothing changes.
\<close>

theorem Approve_requirements:
  "ReadNFT ctx tid = Inr tok \<Longrightarrow>
   (fst (Approve ctx a tid) = Inr True \<longrightarrow>
      GetState ctx (SimpleKey a) \<noteq> None \<and>
      (clientID ctx = Owner tok \<or> fst (IsApprovedForAll ctx (Owner tok) (clientID ctx))) \<and>
      ReadNFT (snd (Approve ctx a tid)) tid = Inr (tok\<lparr>Approved := a\<rparr>)) \<and>
   (clientID ctx \<noteq> Owner tok \<and> \<not> fst (IsApprovedForAll ctx (Owner tok) (clientID ctx)) \<longrightarrow>
      fst (Approve ctx a tid) \<noteq> Inr True \<and> snd (Approve ctx a tid) = ctx)"
  by (auto simp add: Approve_def Let_def ReadNFT_stored GetState_PutState GetState_SetEvent
      split: option.splits if_splits)

theorem Approve_requirements_witness:
  "ReadNFT (newContext ''alice'' ''Org1MSP'' world2) ''1'' = Inr token1 \<and>
   fst (Approve (newContext ''alice'' ''Org1MSP'' world2) ''carol'' ''1'') = Inr True \<and>
   GetState (newContext ''alice'' ''Org1MSP'' world2) (SimpleKey ''carol'') \<noteq> None \<and>
   clientID (newContext ''alice'' ''Org1MSP'' world2) = Owner token1 \<and>
   ReadNFT (snd (Approve (newContext ''alice'' ''Org1MSP'' world2) ''carol'' ''1'')) ''1'' =
     Inr (token1\<lparr>Approved := ''carol''\<rparr>) \<and>
   clientID (newContext ''bob'' ''Org1MSP'' world2) = Approved token1 \<and>
   Approve (newContext ''bob'' ''Org1MSP'' world2) ''carol'' ''1'' =
     (Inr False, newContext ''bob'' ''Org1MSP'' world2)"
  using Approve_requirements [OF ReadNFT_world2, of "''alice''" "''Org1MSP''" "''carol''"]
    Approve_requirements [OF ReadNFT_world2, of "''bob''" "''Org1MSP''" "''carol''"]
  by (simp add: ReadNFT_world2 Atoi_1 Approve_def Let_def IsApprovedForAll_never)
     (simp add: newContext_def token1_def GetState_def world2_def world1_def
        CreateCompositeKey_def IsApprovedForAll_never)

subsection \<open>Determinism\<close>

text \<open>
  Every read of the contract goes through \<^verbatim>\<open>GetState\<close> or the partial-key scan, and both
  give the same answer on two world states that hold the same key-value pairs; every
  write keeps that agreement.
\<close>

lemma sameSnapshot_map_of:
  "sameSnapshot c1 c2 \<Longrightarrow> map_of (world c1) = map_of (world c2)"
  by (simp add: sameSnapshot_def map_of_inject_set)

lemma sameSnapshot_GetState: "sameSnapshot c1 c2 \<Longrightarrow> GetState c1 k = GetState c2 k"
  by (simp add: GetState_def sameSnapshot_map_of)

lemma sameSnapshot_PutState:
  assumes "sameSnapshot c1 c2"
  shows "sameSnapshot (PutState c1 k v) (PutState c2 k v)"
proof -
  have d1: "distinct (map fst (AList.update k v (world c1)))"
    and d2: "distinct (map fst (AList.update k v (world c2)))"
    using assms by (simp_all add: sameSnapshot_def distinct_update)
  have "map_of (AList.update k v (world c1)) = map_of (AList.update k v (world c2))"
    by (simp add: update_conv' sameSnapshot_map_of [OF assms])
  then have "set (AList.update k v (world c1)) = set (AList.update k v (world c2))"
    by (simp add: map_of_inject_set [OF d1 d2])
  with d1 d2 assms show ?thesis
    by (simp add: sameSnapshot_def PutState_def)
qed

lemma sameSnapshot_DeleteState:
  assumes "sameSnapshot c1 c2"
  shows "sameSnapshot (DeleteState c1 k) (DeleteState c2 k)"
proof -
  have d1: "distinct (map fst (AList.delete k (world c1)))"
    and d2: "distinct (map fst (AList.delete k (world c2)))"
    using assms by (simp_all add: sameSnapshot_def distinct_delete)
  have "map_of (AList.delete k (world c1)) = map_of (AList.delete k (world c2))"
    by (simp add: delete_conv' sameSnapshot_map_of [OF assms])
  then have "set (AList.delete k (world c1)) = set (AList.delete k (world c2))"
    by (simp add: map_of_inject_set [OF d1 d2])
  with d1 d2 assms show ?thesis
    by (simp add: sameSnapshot_def DeleteState_def)
qed

lemma sameSnapshot_SetEvent:
  "sameSnapshot c1 c2 \<Longrightarrow> sameSnapshot (SetEvent c1 n p) (SetEvent c2 n p)"
  by (simp add: sameSnapshot_def SetEvent_def)

lemma sameSnapshot_caller:
  "sameSnapshot c1 c2 \<Longrightarrow> clientID c1 = clientID c2"
  "sameSnapshot c1 c2 \<Longrightarrow> clientMSPID c1 = clientMSPID c2"
  by (simp_all add: sameSnapshot_def)

lemma sameSnapshot_ReadNFT: "sameSnapshot c1 c2 \<Longrightarrow> ReadNFT c1 tid = ReadNFT c2 tid"
  by (simp add: ReadNFT_def sameSnapshot_GetState [of c1 c2])

text \<open>The count of a scan does not depend on the order in which the entries are met.\<close>

lemma sameSnapshot_BalanceOf:
  assumes "sameSnapshot c1 c2"
  shows "BalanceOf c1 holder = BalanceOf c2 holder"
proof -
  have "distinct (world c1)" "distinct (world c2)" "set (world c1) = set (world c2)"
    using assms by (auto simp add: sameSnapshot_def distinct_map)
  then show ?thesis
    by (simp add: BalanceOf_def GetStateByPartialCompositeKey_def distinct_length_filter)
qed

lemma sameSnapshot_IsApprovedForAll:
  "sameSnapshot c1 c2 \<Longrightarrow> IsApprovedForAll c1 a b = IsApprovedForAll c2 a b"
  by (simp add: IsApprovedForAll_def sameSnapshot_GetState [of c1 c2])

lemma sameOutcome_MintWithTokenURI:
  "sameSnapshot c1 c2 \<Longrightarrow>
   sameOutcome (MintWithTokenURI c1 tid uri) (MintWithTokenURI c2 tid uri)"
  by (auto simp add: MintWithTokenURI_def sameOutcome_def Let_def
      sameSnapshot_ReadNFT [of c1 c2] sameSnapshot_caller [of c1 c2]
      intro!: sameSnapshot_SetEvent sameSnapshot_PutState split: sum.splits option.splits)

lemma sameOutcome_TransferFrom:
  "sameSnapshot c1 c2 \<Longrightarrow> sameOutcome (TransferFrom c1 f t tid) (TransferFrom c2 f t tid)"
  by (auto simp add: TransferFrom_def sameOutcome_def Let_def sameSnapshot_ReadNFT [of c1 c2]
      sameSnapshot_IsApprovedForAll [of c1 c2]
      intro!: sameSnapshot_SetEvent sameSnapshot_PutState sameSnapshot_DeleteState
      split: sum.splits option.splits)

lemma sameOutcome_Approve:
  "sameSnapshot c1 c2 \<Longrightarrow> sameOutcome (Approve c1 a tid) (Approve c2 a tid)"
  by (auto simp add: Approve_def sameOutcome_def Let_def sameSnapshot_ReadNFT [of c1 c2]
      sameSnapshot_caller [of c1 c2] sameSnapshot_GetState [of c1 c2]
      sameSnapshot_IsApprovedForAll [of c1 c2]
      intro!: sameSnapshot_SetEvent sameSnapshot_PutState
      split: sum.splits option.splits)

lemma sameOutcome_SetApprovalForAll:
  "sameSnapshot c1 c2 \<Longrightarrow>
   sameOutcome (SetApprovalForAll c1 a b) (SetApprovalForAll c2 a b)"
  by (auto simp add: SetApprovalForAll_def sameOutcome_def Let_def
      sameSnapshot_caller [of c1 c2]
      intro!: sameSnapshot_SetEvent sameSnapshot_PutState)

lemma sameOutcome_Burn:
  "sameSnapshot c1 c2 \<Longrightarrow> sameOutcome (Burn c1 tid) (Burn c2 tid)"
  by (auto simp add: Burn_def sameOutcome_def Let_def sameSnapshot_ReadNFT [of c1 c2]
      sameSnapshot_caller [of c1 c2]
      intro!: sameSnapshot_SetEvent sameSnapshot_DeleteState
      split: sum.splits option.splits)

text \<open>
  Claim C9: every operation of the contract is deterministic. Two runs of an operation
  with the same arguments, in contexts with the same caller identity, the same
  organization tag and the same ledger snapshot, return the same result and leave the
  same ledger snapshot and the same event, so their writes and deletes agree. The two
  contexts may differ in the transaction id, in the timestamp and in the order in which
  the world state holds its entries; no operation depends on any of these.
\<close>

theorem contract_deterministic:
  "sameSnapshot c1 c2 \<Longrightarrow>
     sameOutcome (MintWithTokenURI c1 tid uri) (MintWithTokenURI c2 tid uri) \<and>
     sameOutcome (TransferFrom c1 from' to' tid) (TransferFrom c2 from' to' tid) \<and>
     sameOutcome (Approve c1 a tid) (Approve c2 a tid) \<and>
     sameOutcome (SetApprovalForAll c1 a b) (SetApprovalForAll c2 a b) \<and>
     sameOutcome (Burn c1 tid) (Burn c2 tid) \<and>
     IsApprovedForAll c1 a a' = IsApprovedForAll c2 a a' \<and>
     GetApproved c1 tid = GetApproved c2 tid \<and>
     OwnerOf c1 tid = OwnerOf c2 tid \<and>
     BalanceOf c1 a = BalanceOf c2 a \<and>
     ClientAccountBalance c1 = ClientAccountBalance c2 \<and>
     ClientAccountID c1 = ClientAccountID c2"
  by (simp add: sameOutcome_MintWithTokenURI sameOutcome_TransferFrom sameOutcome_Approve
      sameOutcome_SetApprovalForAll sameOutcome_Burn sameSnapshot_IsApprovedForAll
      GetApproved_def OwnerOf_def sameSnapshot_ReadNFT [of c1 c2] sameSnapshot_BalanceOf
      ClientAccountBalance_def ClientAccountID_def sameSnapshot_caller [of c1 c2])

theorem contract_deterministic_witness:
  "sameSnapshot (newContext ''alice'' ''Org1MSP'' world1)
     ((newContext ''alice'' ''Org1MSP'' (rev world1))\<lparr>txID := ''tx2'', txTimestamp := 86400\<rparr>) \<and>
   world1 \<noteq> rev world1 \<and>
   sameOutcome
     (TransferFrom (newContext ''alice'' ''Org1MSP'' world1) ''alice'' ''carol'' ''1'')
     (TransferFrom
        ((newContext ''alice'' ''Org1MSP'' (rev world1))\<lparr>txID := ''tx2'', txTimestamp := 86400\<rparr>)
        ''alice'' ''carol'' ''1'') \<and>
   BalanceOf (newContext ''alice'' ''Org1MSP'' world1) ''alice'' =
   BalanceOf
     ((newContext ''alice'' ''Org1MSP'' (rev world1))\<lparr>txID := ''tx2'', txTimestamp := 86400\<rparr>)
     ''alice''"
proof -
  have s: "sameSnapshot (newContext ''alice'' ''Org1MSP'' world1)
     ((newContext ''alice'' ''Org1MSP'' (rev world1))\<lparr>txID := ''tx2'', txTimestamp := 86400\<rparr>)"
    by (auto simp add: sameSnapshot_def newContext_def world1_def CreateCompositeKey_def
        prefixes_distinct)
  have d: "world1 \<noteq> rev world1"
    by (simp add: world1_def CreateCompositeKey_def prefixes_distinct)
  show ?thesis
    using s d
      contract_deterministic
        [OF s, of "''1''" "''ipfs://x''" "''alice''" "''carol''" "''alice''" True "''bob''"]
    by simp
qed

end
